theory Spec2Isabelle
  imports Main "HOL-Library.Word"
begin

unbundle bit_operations_syntax

section \<open>Gesture classifier (touch\_sensor.c)\<close>

text \<open>
  The classifier is two handlers over one static struct: the GPIO interrupt handler, which
  runs on every edge of the contact signal, and the callback of a FreeRTOS one-shot software
  timer. Both are modelled as functions from the struct to the updated struct and the list
  of events they post, in posting order.

  Time is the FreeRTOS tick count, an unsigned 32-bit counter that wraps.
\<close>

type_synonym TickType_t = "32 word"

text \<open>
  \<open>pdMS_TO_TICKS\<close> is the FreeRTOS macro
  \<^verbatim>\<open>(TickType_t)(((uint64_t)ms * (uint64_t)configTICK_RATE_HZ) / 1000)\<close>;
  the tick rate is a build constant that the sources do not fix, hence the parameter \<open>hz\<close>.
\<close>

definition pdMS_TO_TICKS :: "nat \<Rightarrow> 32 word \<Rightarrow> TickType_t" where
  "pdMS_TO_TICKS hz ms = word_of_nat ((unat ms * hz) div 1000)"

definition LONG_PRESS_MS :: "32 word" where
  "LONG_PRESS_MS = 200"

text \<open>The three events of \<open>timemachine_event_id_t\<close> that the classifier posts.\<close>

datatype input_event = INPUT_TAP | INPUT_LONG_PRESS | INPUT_RELEASE

subsection \<open>The software timer\<close>

text \<open>
  A FreeRTOS software timer, as far as the classifier uses it: its period, and the tick at
  which it expires when it is active (\<open>None\<close> when dormant). \<open>xTimerStart\<close> makes the
  timer expire one period after the call, whether it was active or not; \<open>xTimerStop\<close>
  makes it dormant and leaves the period alone; \<open>xTimerChangePeriod\<close> sets the period and
  also starts the timer. The \<open>FromISR\<close> variants do the same from the interrupt handler.
  The tick of the call is implicit in FreeRTOS and explicit (\<open>now\<close>) here.
\<close>

record xtimer =
  period :: TickType_t
  expiry :: "TickType_t option"

definition xTimerCreate :: "TickType_t \<Rightarrow> xtimer" where
  "xTimerCreate p = \<lparr>period = p, expiry = None\<rparr>"

definition xTimerStart :: "TickType_t \<Rightarrow> xtimer \<Rightarrow> xtimer" where
  "xTimerStart now t = t\<lparr>expiry := Some (now + period t)\<rparr>"

definition xTimerStop :: "xtimer \<Rightarrow> xtimer" where
  "xTimerStop t = t\<lparr>expiry := None\<rparr>"

definition xTimerChangePeriod :: "TickType_t \<Rightarrow> TickType_t \<Rightarrow> xtimer \<Rightarrow> xtimer" where
  "xTimerChangePeriod now p t = t\<lparr>period := p, expiry := Some (now + p)\<rparr>"

subsection \<open>State\<close>

record touch_sensor_config_t =
  gpio :: nat
  active_high :: bool
  debounce_ms :: "32 word"

text \<open>
  The static struct \<open>s_state\<close> of touch\_sensor.c. Its fields carry the prefix \<open>ts_\<close>
  because the panel manager has a static struct of the same name with fields of the same
  names.
\<close>

record touch_state =
  ts_initialized :: bool
  ts_config :: touch_sensor_config_t
  last_touch_time :: TickType_t
  release_timer :: xtimer
  is_pressed :: bool
  long_press_detected :: bool
  press_count :: "32 word"
  release_count :: "32 word"
  debounce_skip_count :: "32 word"

text \<open>
  \<open>touch_sensor_init\<close> on its success path, from the zeroed struct: the timer is created
  with the long-press period and is not started.
\<close>

definition touch_sensor_init :: "nat \<Rightarrow> touch_sensor_config_t \<Rightarrow> touch_state" where
  "touch_sensor_init hz cfg =
     \<lparr>ts_initialized = True,
      ts_config = cfg,
      last_touch_time = 0,
      release_timer = xTimerCreate (pdMS_TO_TICKS hz LONG_PRESS_MS),
      is_pressed = False,
      long_press_detected = False,
      press_count = 0,
      release_count = 0,
      debounce_skip_count = 0\<rparr>"

text \<open>\<open>(level == 1) == s_state.config.active_high\<close>, on the level read from the pin.\<close>

definition is_touch_active :: "touch_state \<Rightarrow> int \<Rightarrow> bool" where
  "is_touch_active s level = ((level = 1) = active_high (ts_config s))"

subsection \<open>The interrupt handler\<close>

definition gpio_isr_handler ::
  "nat \<Rightarrow> TickType_t \<Rightarrow> int \<Rightarrow> touch_state \<Rightarrow> touch_state \<times> input_event list" where
  "gpio_isr_handler hz now level s =
     (let debounce_ticks = pdMS_TO_TICKS hz (debounce_ms (ts_config s)) in
      if now - last_touch_time s < debounce_ticks then (s, [])
      else
        let s1 = s\<lparr>last_touch_time := now\<rparr> in
        if is_touch_active s1 level \<and> \<not> is_pressed s1 then
          (s1\<lparr>is_pressed := True,
              long_press_detected := False,
              release_timer := xTimerStart now (release_timer s1)\<rparr>, [])
        else if \<not> is_touch_active s1 level \<and> is_pressed s1 then
          (let s2 = s1\<lparr>is_pressed := False,
                         release_timer := xTimerStop (release_timer s1)\<rparr> in
           if long_press_detected s2 then (s2, [INPUT_RELEASE]) else (s2, [INPUT_TAP]))
        else (s1, []))"

subsection \<open>The timer callback\<close>

text \<open>
  The callback runs when the one-shot timer has expired, so the timer is dormant on entry
  unless the callback starts it again.
\<close>

definition release_timer_callback ::
  "nat \<Rightarrow> TickType_t \<Rightarrow> int \<Rightarrow> touch_state \<Rightarrow> touch_state \<times> input_event list" where
  "release_timer_callback hz now level s =
     (if \<not> is_touch_active s level then
        (if long_press_detected s then
           (s\<lparr>is_pressed := False,
              long_press_detected := False,
              release_timer :=
                xTimerChangePeriod now (pdMS_TO_TICKS hz LONG_PRESS_MS) (release_timer s)\<rparr>,
            [INPUT_RELEASE])
         else if is_pressed s then (s\<lparr>is_pressed := False\<rparr>, [INPUT_TAP])
         else (s, []))
      else if \<not> long_press_detected s then
        (s\<lparr>long_press_detected := True,
           release_timer :=
             xTimerStart now (xTimerChangePeriod now (pdMS_TO_TICKS hz 50) (release_timer s))\<rparr>,
         [INPUT_LONG_PRESS])
      else (s\<lparr>release_timer := xTimerStart now (release_timer s)\<rparr>, []))"

text \<open>
  The timer service: at tick \<open>now\<close> an active timer whose expiry is \<open>now\<close> becomes
  dormant (it is one-shot) and its callback runs; otherwise nothing happens.
\<close>

definition timer_service ::
  "nat \<Rightarrow> TickType_t \<Rightarrow> int \<Rightarrow> touch_state \<Rightarrow> touch_state \<times> input_event list" where
  "timer_service hz now level s =
     (if expiry (release_timer s) = Some now
      then release_timer_callback hz now level (s\<lparr>release_timer := xTimerStop (release_timer s)\<rparr>)
      else (s, []))"

text \<open>
  The classifier driven by a sampled contact signal, one pin level per tick from tick
  \<open>now\<close> on: a level that differs from the previous tick's is an edge and raises the
  interrupt (the pin is configured for both edges), then the timer service runs. The result
  is the list of posted events, each with the tick at which it was posted, and the final
  state.
\<close>

fun simulate ::
  "nat \<Rightarrow> TickType_t \<Rightarrow> int \<Rightarrow> int list \<Rightarrow> touch_state \<Rightarrow>
     (TickType_t \<times> input_event) list \<times> touch_state" where
  "simulate hz now prev [] s = ([], s)"
| "simulate hz now prev (level # levels) s =
     (let (s1, e1) = (if level \<noteq> prev then gpio_isr_handler hz now level s else (s, []));
          (s2, e2) = timer_service hz now level s1;
          (es, s3) = simulate hz (now + 1) level levels s2
      in (map (Pair now) (e1 @ e2) @ es, s3))"

text \<open>
  A configuration for the concrete runs below: an active-high pad with a 50 ms debounce
  window. The runs use a tick rate of 100 Hz (10 ms per tick), so the long-press period is
  20 ticks, the polling period 5 ticks and the debounce window 5 ticks.
\<close>

definition example_touch_config :: touch_sensor_config_t where
  "example_touch_config = \<lparr>gpio = 3, active_high = True, debounce_ms = 50\<rparr>"

section \<open>Panel lifecycle manager (panel\_manager.c)\<close>

definition MAX_PANELS :: nat where
  "MAX_PANELS = 8"

text \<open>\<open>panel_id_t\<close> is a C enum, so any small integer can be stored in it.\<close>

type_synonym panel_id_t = nat

definition PANEL_CLOCK :: panel_id_t where
  "PANEL_CLOCK = 0"

definition PANEL_DATE :: panel_id_t where
  "PANEL_DATE = 1"

datatype esp_err_t =
  ESP_OK | ESP_FAIL | ESP_ERR_NO_MEM | ESP_ERR_INVALID_ARG | ESP_ERR_INVALID_STATE

text \<open>
  The field \<open>id\<close> of \<open>panel_info_t\<close> is \<open>panel_id\<close> here, since \<open>id\<close> is the
  identity function of HOL.
\<close>

record panel_info_t =
  panel_id :: panel_id_t
  name :: string

text \<open>
  The type of \<open>inactivity_timeout_s\<close> is not in the sources (the header at hand predates
  the field); the callback compares it with the 16-bit counter by value, so it is a natural
  number here.
\<close>

record panel_manager_config_t =
  default_panel :: panel_id_t
  inactivity_timeout_s :: nat

text \<open>
  The static struct \<open>s_state\<close> of panel\_manager.c, without its two opaque handles (the
  timer and the event handler instance). \<open>panels\<close> is the array of \<open>MAX_PANELS\<close>
  entries. \<open>panel_count\<close> and \<open>active_panel_idx\<close> are \<open>uint8_t\<close> in the source; no
  operation below can take them past \<open>MAX_PANELS\<close>, so they are natural numbers here.
  \<open>inactivity_counter\<close> is \<open>uint16_t\<close> and its increment wraps.
\<close>

record panel_state =
  pm_initialized :: bool
  pm_config :: panel_manager_config_t
  panels :: "panel_info_t list"
  panel_count :: nat
  active_panel_idx :: nat
  inactivity_counter :: "16 word"

text \<open>The events the manager posts, in posting order, each with its panel id payload.\<close>

datatype panel_event = PANEL_ACTIVATED panel_id_t | PANEL_DEACTIVATED panel_id_t

text \<open>\<open>panel_manager_init\<close> on its success path: the struct is zeroed.\<close>

definition panel_manager_init :: "panel_manager_config_t \<Rightarrow> panel_state" where
  "panel_manager_init cfg =
     \<lparr>pm_initialized = True,
      pm_config = cfg,
      panels = replicate MAX_PANELS \<lparr>panel_id = 0, name = []\<rparr>,
      panel_count = 0,
      active_panel_idx = 0,
      inactivity_counter = 0\<rparr>"

definition activate_panel :: "panel_id_t \<Rightarrow> panel_state \<Rightarrow> panel_state \<times> panel_event list" where
  "activate_panel pid s = (s\<lparr>inactivity_counter := 0\<rparr>, [PANEL_ACTIVATED pid])"

definition deactivate_panel :: "panel_id_t \<Rightarrow> panel_state \<Rightarrow> panel_state \<times> panel_event list" where
  "deactivate_panel pid s = (s, [PANEL_DEACTIVATED pid])"

text \<open>
  The three search loops of the file have the shape
  \<^verbatim>\<open>for (uint8_t i = 0; i < s_state.panel_count; i++) if (s_state.panels[i].id == x) { ...; break/return; }\<close>:
  the body runs at the first index whose panel has the id, if there is one.
\<close>

function panel_index_from :: "nat \<Rightarrow> panel_id_t \<Rightarrow> panel_state \<Rightarrow> nat option" where
  "panel_index_from i pid s =
     (if i < panel_count s
      then (if panel_id (panels s ! i) = pid then Some i else panel_index_from (Suc i) pid s)
      else None)"
  by pat_completeness auto
termination
  by (relation "measure (\<lambda>(i, pid, s). panel_count s - i)") auto

declare panel_index_from.simps [simp del]

text \<open>
  \<open>panel_manager_register_panel\<close> for a non-\<open>NULL\<close> panel; the result is the status,
  the new state and the events posted.
\<close>

definition panel_manager_register_panel ::
  "panel_info_t \<Rightarrow> panel_state \<Rightarrow> esp_err_t \<times> panel_state \<times> panel_event list" where
  "panel_manager_register_panel panel s =
     (if \<not> pm_initialized s then (ESP_ERR_INVALID_STATE, s, [])
      else if panel_count s \<ge> MAX_PANELS then (ESP_ERR_NO_MEM, s, [])
      else if panel_index_from 0 (panel_id panel) s \<noteq> None then (ESP_OK, s, [])
      else
        let s1 = s\<lparr>panels := (panels s)[panel_count s := panel],
                    panel_count := panel_count s + 1\<rparr> in
        if panel_id panel = default_panel (pm_config s1) then
          (case panel_index_from 0 (panel_id panel) s1 of
             Some i \<Rightarrow>
               (let (s2, ev) = activate_panel (panel_id panel) (s1\<lparr>active_panel_idx := i\<rparr>)
                in (ESP_OK, s2, ev))
           | None \<Rightarrow> (ESP_OK, s1, []))
        else (ESP_OK, s1, []))"

definition panel_manager_get_active :: "panel_state \<Rightarrow> panel_id_t" where
  "panel_manager_get_active s =
     (if panel_count s = 0 then default_panel (pm_config s)
      else panel_id (panels s ! active_panel_idx s))"

definition next_panel :: "panel_state \<Rightarrow> esp_err_t \<times> panel_state \<times> panel_event list" where
  "next_panel s =
     (if panel_count s = 0 then (ESP_ERR_INVALID_STATE, s, [])
      else
        let current_panel_id = panel_id (panels s ! active_panel_idx s);
            (s1, ev1) = deactivate_panel current_panel_id s;
            s2 = s1\<lparr>active_panel_idx := (active_panel_idx s1 + 1) mod panel_count s1\<rparr>;
            next_panel_id = panel_id (panels s2 ! active_panel_idx s2);
            (s3, ev2) = activate_panel next_panel_id s2
        in (ESP_OK, s3, ev1 @ ev2))"

text \<open>The handler of \<open>INPUT_TAP\<close>; it drops the status of \<open>next_panel\<close>.\<close>

definition input_touch_handler :: "panel_state \<Rightarrow> panel_state \<times> panel_event list" where
  "input_touch_handler s = snd (next_panel s)"

text \<open>The callback of the auto-reload timer, which runs once per second.\<close>

definition inactivity_timer_callback :: "panel_state \<Rightarrow> panel_state \<times> panel_event list" where
  "inactivity_timer_callback s =
     (if \<not> pm_initialized s then (s, [])
      else
        let s1 = s\<lparr>inactivity_counter := inactivity_counter s + 1\<rparr> in
        if unat (inactivity_counter s1) \<ge> inactivity_timeout_s (pm_config s1) then
          (if panel_count s1 = 0 then (s1\<lparr>inactivity_counter := 0\<rparr>, [])
           else
             let current_panel_id = panel_id (panels s1 ! active_panel_idx s1);
                 (s2, ev) =
                   (if current_panel_id \<noteq> default_panel (pm_config s1) then
                      (case panel_index_from 0 (default_panel (pm_config s1)) s1 of
                         Some i \<Rightarrow>
                           (let (sa, ea) = deactivate_panel current_panel_id s1;
                                (sb, eb) = activate_panel (default_panel (pm_config s1))
                                             (sa\<lparr>active_panel_idx := i\<rparr>)
                            in (sb, ea @ eb))
                       | None \<Rightarrow> (s1, []))
                    else (s1, []))
             in (s2\<lparr>inactivity_counter := 0\<rparr>, ev))
        else (s1, []))"

text \<open>Drivers: a run of taps, a run of timer ticks, and a run of registrations.\<close>

fun taps :: "nat \<Rightarrow> panel_state \<Rightarrow> panel_state \<times> panel_event list" where
  "taps 0 s = (s, [])"
| "taps (Suc n) s =
     (let (s1, e1) = input_touch_handler s; (s2, e2) = taps n s1 in (s2, e1 @ e2))"

fun ticks :: "nat \<Rightarrow> panel_state \<Rightarrow> panel_state \<times> panel_event list" where
  "ticks 0 s = (s, [])"
| "ticks (Suc n) s =
     (let (s1, e1) = inactivity_timer_callback s; (s2, e2) = ticks n s1 in (s2, e1 @ e2))"

fun register_all :: "panel_info_t list \<Rightarrow> panel_state \<Rightarrow> panel_state" where
  "register_all [] s = s"
| "register_all (p # ps) s = register_all ps (fst (snd (panel_manager_register_panel p s)))"

text \<open>
  A configuration and three panels for the concrete runs below: the clock panel is the
  default, it is registered second, and the timeout is 3 seconds.
\<close>

definition example_panel_config :: panel_manager_config_t where
  "example_panel_config = \<lparr>default_panel = PANEL_CLOCK, inactivity_timeout_s = 3\<rparr>"

definition example_panels :: "panel_info_t list" where
  "example_panels =
     [\<lparr>panel_id = PANEL_DATE, name = ''date''\<rparr>,
      \<lparr>panel_id = PANEL_CLOCK, name = ''clock''\<rparr>,
      \<lparr>panel_id = 2, name = ''weather''\<rparr>]"

section \<open>Fonts (fonts/font.h, default\_font.c, dotmatrix\_small\_font.c)\<close>

text \<open>
  A character descriptor: the number of columns and the column bytes (\<open>None\<close> for the
  \<open>NULL\<close> pointer). The lookups return a pointer to a static descriptor whose \<open>data\<close>
  points to \<open>width\<close> bytes; the model returns the descriptor with those bytes.
\<close>

record font_char_t =
  width :: "8 word"
  data :: "8 word list option"

text \<open>
  A font is a pair of lookups by character code. A lookup returns a pointer, \<open>None\<close>
  being \<open>NULL\<close>. The field \<open>name\<close> of \<open>font_t\<close> is \<open>font_name\<close> here.
\<close>

record font_t =
  font_name :: string
  get_char :: "8 word \<Rightarrow> font_char_t option"
  get_char_last :: "8 word \<Rightarrow> font_char_t option"

subsection \<open>The default font\<close>

definition DEFAULT_FONT_FONT_DATA :: "8 word list" where
  "DEFAULT_FONT_FONT_DATA =
     replicate 33 0
     @ [94, 0, 63, 192, 127, 192, 63, 0, 250, 0, 255, 9, 1, 0, 250, 72,
      84, 36, 0, 12, 112, 12, 0, 124, 4, 120, 0, 56, 68, 68, 0, 66,
      37, 18, 72, 164, 66, 1, 6, 254, 17, 17, 254, 0, 126, 129, 65, 190,
      0, 129, 255, 129, 130, 186, 198, 254, 134, 234, 134, 254, 250, 130, 250, 254,
      134, 234, 134, 254, 124, 250, 130, 250, 254, 130, 170, 186, 254, 130, 250, 226,
      250, 134, 254, 130, 234, 234, 246, 254, 124, 0, 64, 0, 0, 8, 8, 128,
      130, 246, 238, 130, 254, 250, 130, 250, 254, 130, 234, 234, 246, 254, 124, 126,
      129, 126, 130, 255, 128, 194, 177, 142, 66, 137, 118, 15, 8, 255, 79, 137,
      113, 126, 137, 114, 1, 249, 7, 118, 137, 118, 78, 145, 126, 36, 0, 0,
      254, 17, 17, 254, 0, 255, 17, 17, 14, 0, 124, 254, 254, 162, 254, 254,
      254, 250, 124, 10, 124, 126, 74, 52, 60, 66, 66, 126, 66, 60, 126, 74,
      66, 126, 10, 2, 60, 82, 116, 126, 8, 126, 126, 32, 64, 62, 126, 8,
      118, 126, 64, 64, 126, 4, 126, 126, 2, 124, 60, 66, 60, 126, 18, 12,
      60, 66, 124, 126, 18, 108, 68, 74, 50, 2, 126, 2, 62, 64, 62, 30,
      96, 30, 126, 32, 126, 118, 8, 118, 6, 120, 6, 98, 90, 70, 126, 129,
      129, 66, 6, 28, 48, 255, 9, 9, 1, 8, 32, 32, 32, 255, 8, 20,
      227, 249, 21, 249, 253, 149, 105, 121, 133, 73, 253, 133, 121, 253, 149, 133,
      253, 21, 5, 121, 165, 233, 253, 17, 253, 1, 253, 1, 65, 129, 125, 253,
      17, 237, 253, 129, 129, 253, 9, 253, 253, 5, 249, 121, 133, 121, 253, 37,
      25, 121, 133, 249, 253, 37, 217, 137, 149, 101, 5, 253, 5, 125, 129, 125,
      61, 193, 61, 253, 65, 253, 237, 17, 237, 13, 241, 13, 197, 181, 141, 255,
      253, 129, 253, 255, 129, 255, 129, 251, 129, 255, 129, 181, 189, 255, 249, 255,
      187, 181, 205, 255, 255, 193, 191, 193, 255, 129, 237, 243, 255, 161, 255, 0,
      2, 126, 2, 0, 126, 0, 126, 4, 126, 0, 126, 74, 66, 0, 6, 0,
      68, 74, 50, 0, 0, 62, 64, 62, 0, 126, 18, 12, 0, 94, 0, 13,
      17, 253, 253, 149, 101, 4, 126, 4, 4, 126, 4, 0, 4, 126, 4, 32,
      126, 32, 32, 126, 32, 0, 32, 126, 32, 0, 64, 32, 16, 10, 6, 14,
      0, 0, 8, 8, 8, 8, 28, 8, 0, 0, 2, 4, 8, 80, 96, 112,
      0, 4, 126, 100, 82, 76, 66, 74, 52, 14, 8, 126, 78, 74, 50, 60,
      74, 52, 2, 122, 6, 52, 74, 52, 12, 82, 60, 60, 66, 60, 227, 151,
      143, 151, 227, 227, 149, 157, 149, 227, 227, 181, 185, 181, 227, 227, 245, 249,
      245, 227, 224, 224]
     @ replicate 6 0
     @ [224, 224, 0, 252, 252, 0, 0, 0, 224, 224, 0, 252, 252, 0, 255, 255,
      64, 0, 0, 0, 0, 64, 0, 64, 0, 0, 64, 0, 64, 0, 64, 254,
      146, 146, 146, 254, 128, 126, 42, 42, 170, 254, 128, 152, 64, 62, 80, 136,
      128, 72, 40, 152, 254, 16, 40, 68, 68, 36, 20, 254, 20, 36, 68, 168,
      232, 172, 250, 172, 232, 168, 128, 136, 136, 254, 136, 136, 128, 4, 10, 4]"

definition DEFAULT_FONT_CHAR_WIDTH :: "8 word list" where
  "DEFAULT_FONT_CHAR_WIDTH =
     replicate 35 1
     @ [13, 16, 6, 1, 1, 13, 17, 20, 1, 3, 2, 1, 15]
     @ replicate 10 3
     @ [1, 1, 1, 9, 1, 7, 1]
     @ replicate 8 3
     @ [1]
     @ replicate 17 3
     @ [4, 3, 4, 1, 3, 4]
     @ replicate 26 3
     @ [16, 16, 16, 16, 0, 0, 0, 0, 0, 3, 3, 3, 7, 3, 7, 8,
      8, 8, 0, 0, 0, 0, 2]
     @ replicate 9 3
     @ replicate 6 0
     @ [5, 5, 5, 5, 0, 0, 0, 0, 8, 8, 8, 0, 0, 5, 5, 5,
      5, 6, 7, 7, 7, 7, 7, 0, 0, 3]
     @ replicate 69 0"

definition DEFAULT_FONT_CHAR_OFFSET :: "16 word list" where
  "DEFAULT_FONT_CHAR_OFFSET =
     [0, 1, 2, 3, 4, 5, 6, 7, 8, 9, 10, 11, 12, 13, 14, 15,
      16, 17, 18, 19, 20, 21, 22, 23, 24, 25, 26, 27, 28, 29, 30, 31,
      32, 33, 34, 35, 48, 64, 70, 71, 72, 85, 102, 122, 123, 126, 128, 129,
      144, 147, 150, 153, 156, 159, 162, 165, 168, 171, 174, 175, 176, 177, 186, 187,
      194, 195, 198, 201, 204, 207, 210, 213, 216, 219, 220, 223, 226, 229, 232, 235,
      238, 241, 244, 247, 250, 253, 256, 259, 262, 265, 268, 271, 275, 278, 282, 283,
      286, 290, 293, 296, 299, 302, 305, 308, 311, 314, 317, 320, 323, 326, 329, 332,
      335, 338, 341, 344, 347, 350, 353, 356, 359, 362, 365, 368, 384, 400, 416]
     @ replicate 6 432
     @ [435, 438, 441, 448, 451, 458, 466, 474, 482, 482, 482, 482, 482, 484, 487, 490,
      493, 496, 499, 502, 505, 508]
     @ replicate 7 511
     @ [516, 521, 526, 531, 531, 531, 531, 531, 539, 547, 555, 555, 555, 560, 565, 570,
      575, 581, 588, 595, 602, 609, 616, 616, 616]
     @ replicate 69 619"

definition default_font_get_char :: "8 word \<Rightarrow> font_char_t option" where
  "default_font_get_char ch =
     (let base_width = DEFAULT_FONT_CHAR_WIDTH ! unat ch in
      if base_width = 0 then Some \<lparr>width = 0, data = None\<rparr>
      else
        let base_data = drop (unat (DEFAULT_FONT_CHAR_OFFSET ! unat ch)) DEFAULT_FONT_FONT_DATA;
            char_data_with_spacing = take (unat base_width) base_data @ [0x00]
        in Some \<lparr>width = base_width + 1, data = Some char_data_with_spacing\<rparr>)"

definition font_default :: font_t where
  "font_default =
     \<lparr>font_name = ''default'',
      get_char = default_font_get_char,
      get_char_last = default_font_get_char\<rparr>"

subsection \<open>The small dot-matrix font\<close>

definition DOTMATRIX_SMALL_FONT_DATA :: "8 word list" where
  "DOTMATRIX_SMALL_FONT_DATA =
     [253, 21, 253, 253, 149, 109, 125, 133, 133, 253, 133, 125, 253, 149, 133, 253,
      21, 5, 125, 149, 181, 253, 17, 253, 133, 253, 133, 129, 133, 125, 253, 17,
      237, 253, 129, 129, 253, 13, 253, 253, 17, 253, 125, 133, 125, 253, 21, 13,
      125, 165, 253, 253, 21, 237, 77, 149, 181, 5, 253, 5, 125, 129, 125, 61,
      193, 61, 253, 97, 253, 237, 17, 237, 13, 241, 13, 229, 149, 141]"

definition DOTMATRIX_SMALL_CHAR_WIDTH :: "8 word list" where
  "DOTMATRIX_SMALL_CHAR_WIDTH =
     replicate 65 0
     @ replicate 26 3
     @ replicate 6 0
     @ replicate 26 3
     @ replicate 133 0"

definition DOTMATRIX_SMALL_CHAR_OFFSET :: "16 word list" where
  "DOTMATRIX_SMALL_CHAR_OFFSET =
     replicate 66 0
     @ [3, 6, 9, 12, 15, 18, 21, 24, 27, 30, 33, 36, 39, 42, 45, 48,
      51, 54, 57, 60, 63, 66, 69, 72, 75]
     @ replicate 7 0
     @ [3, 6, 9, 12, 15, 18, 21, 24, 27, 30, 33, 36, 39, 42, 45, 48,
      51, 54, 57, 60, 63, 66, 69, 72, 75]
     @ replicate 133 0"

definition dotmatrix_small_font_get_char :: "8 word \<Rightarrow> font_char_t option" where
  "dotmatrix_small_font_get_char ch =
     (let base_width = DOTMATRIX_SMALL_CHAR_WIDTH ! unat ch in
      if base_width = 0 then default_font_get_char ch
      else
        let offset = DOTMATRIX_SMALL_CHAR_OFFSET ! unat ch;
            base_data = drop (unat offset) DOTMATRIX_SMALL_FONT_DATA;
            char_data_with_spacing = take (unat base_width) base_data @ [0x01]
        in Some \<lparr>width = base_width + 1, data = Some char_data_with_spacing\<rparr>)"

definition dotmatrix_small_font_get_char_last :: "8 word \<Rightarrow> font_char_t option" where
  "dotmatrix_small_font_get_char_last ch =
     (let base_width = DOTMATRIX_SMALL_CHAR_WIDTH ! unat ch in
      if base_width = 0 then get_char_last font_default ch
      else
        let offset = DOTMATRIX_SMALL_CHAR_OFFSET ! unat ch in
        Some \<lparr>width = base_width,
              data = Some (take (unat base_width) (drop (unat offset) DOTMATRIX_SMALL_FONT_DATA))\<rparr>)"

definition font_dotmatrix_small :: font_t where
  "font_dotmatrix_small =
     \<lparr>font_name = ''dotmatrix_small'',
      get_char = dotmatrix_small_font_get_char,
      get_char_last = dotmatrix_small_font_get_char_last\<rparr>"

section \<open>Scene composer and output device adapter (display\_max7219.c)\<close>

definition MAX7219_CASCADE :: nat where
  "MAX7219_CASCADE = 4"

text \<open>
  \<open>s_display_buffer\<close>: one 64-bit word per cascaded device, eight column bytes each,
  column \<open>c\<close> of a device in bits \<open>8c .. 8c+7\<close>, bit 0 of a column byte the top pixel.
\<close>

type_synonym display_buffer = "64 word list"

definition clear_display_buffer :: "display_buffer" where
  "clear_display_buffer = replicate MAX7219_CASCADE 0"

text \<open>
  \<open>transpose_8x8\<close>: the two nested loops over \<open>row\<close> and \<open>col\<close>, each from 0 to 7, which
  OR the bit at \<open>row * 8 + col\<close> of the input into position \<open>(7 - col) * 8 + row\<close> of the
  output.
\<close>

definition transpose_8x8 :: "64 word \<Rightarrow> 64 word" where
  "transpose_8x8 input =
     fold (\<lambda>row output.
       fold (\<lambda>col output.
         let bit = drop_bit (row * 8 + col) input AND 1;
             new_row = 7 - col;
             new_col = row
         in output OR push_bit (new_row * 8 + new_col) bit)
       [0..<8] output)
     [0..<8] 0"

definition set_column :: "int \<Rightarrow> 8 word \<Rightarrow> display_buffer \<Rightarrow> display_buffer" where
  "set_column col d buf =
     (if col < 0 \<or> col \<ge> 32 then buf
      else
        let device = nat (col div 8);
            device_col = nat (col mod 8);
            cleared = (buf ! device) AND NOT (push_bit (device_col * 8) 0xFF);
            column_data = push_bit (device_col * 8) (ucast d)
        in buf[device := cleared OR column_data])"

text \<open>
  A C string is the bytes before its terminating NUL: the model's \<open>string\<close> holds
  those bytes, so the last element of the list is the character whose successor is NUL.
  The width is a C \<open>int\<close>; the sums here stay far from its range.
\<close>

fun text_width_loop :: "font_t \<Rightarrow> string \<Rightarrow> int \<Rightarrow> int" where
  "text_width_loop font [] w = w"
| "text_width_loop font (ch # p) w =
     (let char_desc = (if p = [] then get_char_last font (of_char ch)
                       else get_char font (of_char ch));
          w' = (case char_desc of
                  None \<Rightarrow> w
                | Some d \<Rightarrow> if width d > 0 then w + uint (width d) else w)
      in text_width_loop font p w')"

definition get_text_width :: "string \<Rightarrow> font_t option \<Rightarrow> int" where
  "get_text_width text font =
     text_width_loop (case font of None \<Rightarrow> font_default | Some f \<Rightarrow> f) text 0"

text \<open>
  The column loop shared by \<open>render_text_at\<close> and \<open>render_bitmap_at\<close>:
  \<^verbatim>\<open>for (col = 0; col < width; col++) { if (x + col >= 32) break; if (x + col >= 0) set_column(x + col, data[col]); }\<close>
\<close>

function render_columns ::
  "int \<Rightarrow> 8 word list \<Rightarrow> nat \<Rightarrow> nat \<Rightarrow> display_buffer \<Rightarrow> display_buffer" where
  "render_columns x d col w buf =
     (if col < w then
        (if x + int col \<ge> 32 then buf
         else render_columns x d (Suc col) w
                (if x + int col \<ge> 0 then set_column (x + int col) (d ! col) buf else buf))
      else buf)"
  by pat_completeness auto
termination
  by (relation "measure (\<lambda>(x, d, col, w, buf). w - col)") auto

fun render_text_loop :: "font_t \<Rightarrow> int \<Rightarrow> string \<Rightarrow> display_buffer \<Rightarrow> display_buffer" where
  "render_text_loop font x [] buf = buf"
| "render_text_loop font x (ch # text) buf =
     (let char_desc = (if text = [] then get_char_last font (of_char ch)
                       else get_char font (of_char ch));
          (buf1, x1) =
            (case char_desc of
               None \<Rightarrow> (buf, x)
             | Some d \<Rightarrow>
                 (case data d of
                    None \<Rightarrow> (buf, x)
                  | Some bytes \<Rightarrow>
                      if width d > 0
                      then (render_columns x bytes 0 (unat (width d)) buf, x + uint (width d))
                      else (buf, x)))
      in render_text_loop font x1 text buf1)"

definition render_text_at ::
  "int \<Rightarrow> string \<Rightarrow> font_t option \<Rightarrow> display_buffer \<Rightarrow> display_buffer" where
  "render_text_at x_offset text font buf =
     render_text_loop (case font of None \<Rightarrow> font_default | Some f \<Rightarrow> f) x_offset text buf"

definition render_bitmap_at ::
  "int \<Rightarrow> 8 word list option \<Rightarrow> int \<Rightarrow> int \<Rightarrow> display_buffer \<Rightarrow> display_buffer" where
  "render_bitmap_at x_offset bitmap w h buf =
     (case bitmap of
        None \<Rightarrow> buf
      | Some bytes \<Rightarrow> if w \<le> 0 \<or> h \<le> 0 then buf else render_columns x_offset bytes 0 (nat w) buf)"

text \<open>C's \<open>/ 2\<close> on a signed \<open>int\<close> truncates towards zero.\<close>

definition c_div2 :: "int \<Rightarrow> int" where
  "c_div2 a = (if a \<ge> 0 then a div 2 else - ((- a) div 2))"

definition render_text_centered :: "string \<Rightarrow> font_t option \<Rightarrow> display_buffer" where
  "render_text_centered text font =
     (let text_width = get_text_width text font;
          x_offset = c_div2 (32 - text_width)
      in render_text_at x_offset text font clear_display_buffer)"

text \<open>
  Scene elements. The fields \<open>width\<close> and \<open>height\<close> of \<open>scene_animation_t\<close> are
  \<open>anim_width\<close> and \<open>anim_height\<close> here, since \<open>width\<close> is a field of the character
  descriptor. \<open>frames\<close> is a pointer to an array of pointers to frame bitmaps, each of
  which may be \<open>NULL\<close>.
\<close>

record scene_animation_t =
  frame_count :: "8 word"
  frame_delay_ms :: "32 word"
  frames :: "8 word list option list option"
  anim_width :: "8 word"
  anim_height :: "8 word"

datatype scene_element_t =
  SCENE_ELEMENT_TEXT string "font_t option"
| SCENE_ELEMENT_ANIMATION scene_animation_t

record display_scene_t =
  element_count :: "8 word"
  elements :: "scene_element_t list option"
  fallback_text :: "string option"

text \<open>
  The two loops of \<open>render_scene\<close> over the first \<open>element_count\<close> elements: the test
  \<open>i < element_count - 1\<close> holds exactly when the element is not the last one.
\<close>

fun scene_total_width :: "scene_element_t list \<Rightarrow> int" where
  "scene_total_width [] = 0"
| "scene_total_width (elem # rest) =
     (case elem of
        SCENE_ELEMENT_TEXT str font \<Rightarrow> get_text_width str font
      | SCENE_ELEMENT_ANIMATION a \<Rightarrow> uint (anim_width a))
     + (if rest \<noteq> [] then 2 else 0)
     + scene_total_width rest"

fun render_elements :: "int \<Rightarrow> scene_element_t list \<Rightarrow> display_buffer \<Rightarrow> display_buffer" where
  "render_elements x_offset [] buf = buf"
| "render_elements x_offset (elem # rest) buf =
     (let (buf1, x1) =
            (case elem of
               SCENE_ELEMENT_TEXT str font \<Rightarrow>
                 (render_text_at x_offset str font buf, x_offset + get_text_width str font)
             | SCENE_ELEMENT_ANIMATION a \<Rightarrow>
                 ((case frames a of
                     None \<Rightarrow> buf
                   | Some fs \<Rightarrow>
                       if frame_count a > 0
                       then render_bitmap_at x_offset (fs ! 0)
                              (uint (anim_width a)) (uint (anim_height a)) buf
                       else buf),
                  x_offset + uint (anim_width a)));
          x2 = (if rest \<noteq> [] then x1 + 2 else x1)
      in render_elements x2 rest buf1)"

definition render_scene :: "scene_element_t list \<Rightarrow> display_buffer" where
  "render_scene elems =
     (let total_width = scene_total_width elems;
          x_offset = c_div2 (32 - total_width)
      in render_elements x_offset elems clear_display_buffer)"

text \<open>
  The streaming loop of \<open>max7219_driver_render\<close>: one call of
  \<open>max7219_draw_image_8x8(&s_dev, i * 8, &transposed)\<close> per device, recorded as the pair
  of the position argument and the image.
\<close>

definition stream_display_buffer :: "display_buffer \<Rightarrow> (8 word \<times> 64 word) list" where
  "stream_display_buffer buf =
     map (\<lambda>i. let buffer_index = MAX7219_CASCADE - 1 - i;
                  transposed = transpose_8x8 (buf ! buffer_index)
              in (word_of_nat (i * 8), transposed))
       [0..<MAX7219_CASCADE]"

text \<open>
  \<open>max7219_driver_render\<close>, from the initialisation flag, the scene pointer and the display
  buffer, to the new buffer and the draw calls in the order they are made.
\<close>

definition max7219_driver_render ::
  "bool \<Rightarrow> display_scene_t option \<Rightarrow> display_buffer \<Rightarrow>
     display_buffer \<times> (8 word \<times> 64 word) list" where
  "max7219_driver_render s_initialized scene buf =
     (case scene of
        None \<Rightarrow> (buf, [])
      | Some sc \<Rightarrow>
          if \<not> s_initialized then (buf, [])
          else
            (let fallback =
                   (case fallback_text sc of
                      Some text \<Rightarrow> Some (render_text_centered text None)
                    | None \<Rightarrow> None);
                 composed =
                   (case elements sc of
                      Some elems \<Rightarrow>
                        if element_count sc > 0
                        then Some (render_scene (take (unat (element_count sc)) elems))
                        else fallback
                    | None \<Rightarrow> fallback)
             in case composed of
                  None \<Rightarrow> (buf, [])
                | Some buf1 \<Rightarrow> (buf1, stream_display_buffer buf1)))"

subsection \<open>The measure of the specification\<close>

text \<open>
  What a lookup result contributes to a width: its \<open>width\<close> field, and nothing for a
  \<open>NULL\<close> descriptor.
\<close>

definition char_desc_width :: "font_char_t option \<Rightarrow> int" where
  "char_desc_width desc = (case desc of None \<Rightarrow> 0 | Some d \<Rightarrow> uint (width d))"

text \<open>
  The text width in the words of the specification: the sum of the widths that \<open>get_char\<close>
  returns for every character except the last, plus the width that \<open>get_char_last\<close>
  returns for the last character.
\<close>

definition spec_text_width :: "font_t \<Rightarrow> string \<Rightarrow> int" where
  "spec_text_width font text =
     (if text = [] then 0
      else (\<Sum>ch\<leftarrow>butlast text. char_desc_width (get_char font (of_char ch)))
           + char_desc_width (get_char_last font (of_char (last text))))"

section \<open>Theorems about the gesture classifier\<close>

text \<open>
  C6. An edge of either polarity (any pin level) that arrives less than the debounce window
  after the last accepted edge is discarded entirely: the handler posts no event and
  returns the state unchanged, so the classifier state, the timer and the debounce
  reference time \<open>last_touch_time\<close> all stay as they were. An edge outside the window
  is accepted and becomes the new reference time whatever its polarity, and the timer
  callback never touches the reference time: the window is always measured from the last
  accepted edge.
\<close>

theorem debounce_discards_edge:
  "(now - last_touch_time s < pdMS_TO_TICKS hz (debounce_ms (ts_config s)) \<longrightarrow>
      gpio_isr_handler hz now level s = (s, []))
   \<and> (\<not> now - last_touch_time s < pdMS_TO_TICKS hz (debounce_ms (ts_config s)) \<longrightarrow>
      last_touch_time (fst (gpio_isr_handler hz now level s)) = now)
   \<and> last_touch_time (fst (release_timer_callback hz now' level' s)) = last_touch_time s
   \<and> last_touch_time (fst (timer_service hz now' level' s)) = last_touch_time s"
  by (simp add: gpio_isr_handler_def release_timer_callback_def timer_service_def
      is_touch_active_def Let_def)

lemma replicate_numeral_unfold: "replicate (numeral k) x = x # replicate (pred_numeral k) x"
  by (simp add: numeral_eq_Suc)

lemmas touch_defs =
  touch_sensor_init_def gpio_isr_handler_def timer_service_def release_timer_callback_def
  pdMS_TO_TICKS_def LONG_PRESS_MS_def xTimerCreate_def xTimerStart_def xTimerStop_def
  xTimerChangePeriod_def is_touch_active_def example_touch_config_def Let_def

theorem debounce_discards_edge_witness:
  "(let s = fst (gpio_isr_handler 100 100 1 (touch_sensor_init 100 example_touch_config))
    in 103 - last_touch_time s < pdMS_TO_TICKS 100 (debounce_ms (ts_config s))
       \<and> gpio_isr_handler 100 103 0 s = (s, [])
       \<and> \<not> 130 - last_touch_time s < pdMS_TO_TICKS 100 (debounce_ms (ts_config s))
       \<and> last_touch_time (fst (gpio_isr_handler 100 130 0 s)) = 130)"
  using debounce_discards_edge
          [of 103 "fst (gpio_isr_handler 100 100 1 (touch_sensor_init 100 example_touch_config))"
              100 0]
        debounce_discards_edge
          [of 130 "fst (gpio_isr_handler 100 100 1 (touch_sensor_init 100 example_touch_config))"
              100 0]
  by (simp add: touch_defs)

subsection \<open>The timer period after a long press\<close>

text \<open>
  The interrupt handler starts and stops the timer but never sets its period; the period
  is set in the callback only: to the polling period when the long press starts, and back
  to the long-press period on the path where a poll observes the release.
\<close>

lemma isr_keeps_period:
  "period (release_timer (fst (gpio_isr_handler hz now level s))) = period (release_timer s)"
  by (simp add: gpio_isr_handler_def xTimerStart_def xTimerStop_def Let_def)

lemma callback_long_press_start_sets_poll_period:
  "is_touch_active s level \<Longrightarrow> \<not> long_press_detected s \<Longrightarrow>
   release_timer_callback hz now level s = (s', ev) \<Longrightarrow>
   ev = [INPUT_LONG_PRESS] \<and> period (release_timer s') = pdMS_TO_TICKS hz 50"
  by (auto simp: release_timer_callback_def xTimerStart_def xTimerChangePeriod_def)

lemma callback_polling_is_silent:
  "is_touch_active s level \<Longrightarrow> long_press_detected s \<Longrightarrow>
   release_timer_callback hz now level s = (s', ev) \<Longrightarrow>
   ev = [] \<and> long_press_detected s' \<and> is_pressed s' = is_pressed s
   \<and> release_timer s' = xTimerStart now (release_timer s)"
  by (auto simp: release_timer_callback_def)

lemma callback_release_restores_period:
  "\<not> is_touch_active s level \<Longrightarrow> long_press_detected s \<Longrightarrow>
   release_timer_callback hz now level s = (s', ev) \<Longrightarrow>
   ev = [INPUT_RELEASE] \<and> \<not> is_pressed s' \<and> \<not> long_press_detected s'
   \<and> period (release_timer s') = pdMS_TO_TICKS hz LONG_PRESS_MS"
  by (auto simp: release_timer_callback_def xTimerChangePeriod_def)

lemma isr_release_after_long_press:
  "\<not> now - last_touch_time s < pdMS_TO_TICKS hz (debounce_ms (ts_config s)) \<Longrightarrow>
   \<not> is_touch_active s level \<Longrightarrow> is_pressed s \<Longrightarrow> long_press_detected s \<Longrightarrow>
   gpio_isr_handler hz now level s = (s', ev) \<Longrightarrow>
   ev = [INPUT_RELEASE] \<and> \<not> is_pressed s'
   \<and> release_timer s' = \<lparr>period = period (release_timer s), expiry = None\<rparr>"
  by (auto simp: gpio_isr_handler_def is_touch_active_def xTimerStop_def Let_def)

text \<open>
  C1. A long press whose release is seen by the interrupt handler leaves the timer at the
  polling period. The run: the pad is pressed at tick 100 and held for 22 ticks (220 ms),
  the long press starts at tick 120, the release edge at tick 122 is accepted by the
  interrupt handler and ends the long press; the pad is pressed again at tick 128. The
  timer is then armed to expire at tick 133, 5 ticks (50 ms) after the press, with period 5,
  whereas the long-press period is 20 ticks (200 ms).
\<close>

theorem isr_release_leaves_poll_period:
  "simulate 100 100 0 (replicate 22 1 @ replicate 6 0 @ [1]) (touch_sensor_init 100 example_touch_config)
     = ([(120, INPUT_LONG_PRESS), (122, INPUT_RELEASE)],
        \<lparr>ts_initialized = True, ts_config = example_touch_config, last_touch_time = 128,
         release_timer = \<lparr>period = 5, expiry = Some 133\<rparr>,
         is_pressed = True, long_press_detected = False,
         press_count = 0, release_count = 0, debounce_skip_count = 0\<rparr>)
   \<and> pdMS_TO_TICKS 100 LONG_PRESS_MS = 20"
  by (simp add: touch_defs replicate_numeral_unfold)

text \<open>
  The other path: with a debounce window of 300 ms the release edge at tick 123 is
  discarded, the poll at tick 125 observes the release, and the press at tick 153 arms the
  timer with the long-press period of 20 ticks again.
\<close>

lemma poll_release_restores_long_press_period:
  "simulate 100 100 0 (replicate 23 1 @ replicate 30 0 @ [1])
     (touch_sensor_init 100 (example_touch_config\<lparr>debounce_ms := 300\<rparr>))
     = ([(120, INPUT_LONG_PRESS), (125, INPUT_RELEASE)],
        \<lparr>ts_initialized = True, ts_config = example_touch_config\<lparr>debounce_ms := 300\<rparr>,
         last_touch_time = 153,
         release_timer = \<lparr>period = 20, expiry = Some 173\<rparr>,
         is_pressed = True, long_press_detected = False,
         press_count = 0, release_count = 0, debounce_skip_count = 0\<rparr>)"
  by (simp add: touch_defs replicate_numeral_unfold)

text \<open>
  C2. After a long press ended by a release edge in the interrupt handler, a second press
  held for 210 ms (from tick 128 to tick 149) gets its \<open>INPUT_LONG_PRESS\<close> at tick 133,
  which is 50 ms after the press edge and not the 200 ms of the threshold.
\<close>

theorem second_long_press_starts_after_poll_period:
  "fst (simulate 100 100 0 (replicate 22 1 @ replicate 6 0 @ replicate 21 1 @ replicate 3 0)
          (touch_sensor_init 100 example_touch_config))
     = [(120, INPUT_LONG_PRESS), (122, INPUT_RELEASE),
        (133, INPUT_LONG_PRESS), (149, INPUT_RELEASE)]"
  by (simp add: touch_defs replicate_numeral_unfold)

text \<open>
  The first press of a run is classified with the threshold: held for 300 ms from tick
  100, it gets one \<open>INPUT_LONG_PRESS\<close> at tick 120 and one \<open>INPUT_RELEASE\<close> at the
  release, and the polls in between post nothing.
\<close>

lemma first_long_press_starts_after_threshold:
  "fst (simulate 100 100 0 (replicate 30 1 @ replicate 10 0)
          (touch_sensor_init 100 example_touch_config))
     = [(120, INPUT_LONG_PRESS), (130, INPUT_RELEASE)]"
  by (simp add: touch_defs replicate_numeral_unfold)

text \<open>
  C5. After a long press ended by a release edge in the interrupt handler, a second press
  of 100 ms (from tick 128 to tick 138), shorter than the threshold of 200 ms, posts
  \<open>INPUT_LONG_PRESS\<close> and \<open>INPUT_RELEASE\<close> and no \<open>INPUT_TAP\<close>.
\<close>

theorem short_press_after_long_press_is_no_tap:
  "fst (simulate 100 100 0 (replicate 22 1 @ replicate 6 0 @ replicate 10 1 @ replicate 2 0)
          (touch_sensor_init 100 example_touch_config))
     = [(120, INPUT_LONG_PRESS), (122, INPUT_RELEASE),
        (133, INPUT_LONG_PRESS), (138, INPUT_RELEASE)]"
  by (simp add: touch_defs replicate_numeral_unfold)

text \<open>The first press of a run, held for 100 ms, is one tap, posted at the release.\<close>

lemma first_short_press_is_tap:
  "fst (simulate 100 100 0 (replicate 10 1 @ replicate 10 0)
          (touch_sensor_init 100 example_touch_config))
     = [(110, INPUT_TAP)]"
  by (simp add: touch_defs replicate_numeral_unfold)

text \<open>
  In general: an accepted press followed by an accepted release, with no timer expiry in
  between, cancels the timer and posts one tap.
\<close>

lemma press_release_without_expiry_is_tap:
  assumes "\<not> now1 - last_touch_time s < pdMS_TO_TICKS hz (debounce_ms (ts_config s))"
    and "is_touch_active s l1" and "\<not> is_pressed s"
    and "\<not> now2 - now1 < pdMS_TO_TICKS hz (debounce_ms (ts_config s))"
    and "\<not> is_touch_active s l2"
  shows "snd (gpio_isr_handler hz now1 l1 s) = []
    \<and> snd (gpio_isr_handler hz now2 l2 (fst (gpio_isr_handler hz now1 l1 s))) = [INPUT_TAP]
    \<and> expiry (release_timer
          (fst (gpio_isr_handler hz now2 l2 (fst (gpio_isr_handler hz now1 l1 s))))) = None"
  using assms by (simp add: gpio_isr_handler_def is_touch_active_def xTimerStart_def
      xTimerStop_def Let_def)




text \<open>The same on a sampled signal: pressed at tick 100, released at tick 103.\<close>

lemma debounced_release_run:
  "fst (simulate 100 100 0 (replicate 3 1 @ replicate 20 0) (touch_sensor_init 100 example_touch_config))
     = [(120, INPUT_TAP)]"
  by (simp add: touch_defs replicate_numeral_unfold)

section \<open>Theorems about the geometry transform\<close>

text \<open>A fold that ORs one word per element sets exactly the bits its elements set.\<close>

lemma bit_fold_or:
  "bit (fold (\<lambda>x out. out OR f x) xs (acc :: 64 word)) n
     \<longleftrightarrow> bit acc n \<or> (\<exists>x \<in> set xs. bit (f x) n)"
  by (induction xs arbitrary: acc) (auto simp: bit_or_iff)

lemma bit_fold_fold_or:
  "bit (fold (\<lambda>r out. fold (\<lambda>c out. out OR g r c) cs out) rs (acc :: 64 word)) n
     \<longleftrightarrow> bit acc n \<or> (\<exists>r \<in> set rs. \<exists>c \<in> set cs. bit (g r c) n)"
  by (induction rs arbitrary: acc) (auto simp: bit_fold_or)

text \<open>One step of the loop body moves bit \<open>j\<close> of the input to bit \<open>k\<close>.\<close>

lemma bit_moved:
  "k < 64 \<Longrightarrow> bit (push_bit k (drop_bit j (w :: 64 word) AND 1)) n \<longleftrightarrow> n = k \<and> bit w j"
  by (auto simp: bit_simps)

lemma bit_moved_mask:
  "k < 64 \<Longrightarrow> bit (push_bit k (drop_bit j (w :: 64 word)) AND 2 ^ k) n \<longleftrightarrow> n = k \<and> bit w j"
  by (auto simp: bit_simps)

lemma cell_unique:
  assumes "r < 8" "row < 8" "c < 8" "col < 8"
    and eq: "(7 - c) * 8 + r = (7 - col) * 8 + row"
  shows "r = row \<and> c = (col::nat)"
proof -
  have "((7 - c) * 8 + r) mod 8 = r" "((7 - col) * 8 + row) mod 8 = row"
    using assms(1,2) by simp_all
  then have r: "r = row" using eq by simp
  have "((7 - c) * 8 + r) div 8 = 7 - c" "((7 - col) * 8 + row) div 8 = 7 - col"
    using assms(1,2) by simp_all
  then have "7 - c = 7 - col" using eq by simp
  then have "c = col" using assms(3,4) by simp
  with r show ?thesis by simp
qed

lemma cell_in_range: "row < 8 \<Longrightarrow> col < 8 \<Longrightarrow> (7 - col) * 8 + row < (64::nat)"
  by simp

lemma bit_transpose_8x8:
  "bit (transpose_8x8 input) n
     \<longleftrightarrow> (\<exists>row < 8. \<exists>col < 8. n = (7 - col) * 8 + row \<and> bit input (row * 8 + col))"
  unfolding transpose_8x8_def Let_def bit_fold_fold_or
  apply (auto simp: bit_moved bit_moved_mask cell_in_range)
   apply blast
  subgoal for row col
    by (rule bexI [of _ row], rule bexI [of _ col]) auto
  done

lemma transpose_8x8_cell:
  "row < 8 \<Longrightarrow> col < 8 \<Longrightarrow>
   bit (transpose_8x8 x) ((7 - col) * 8 + row) = bit x (row * 8 + col)"
  unfolding bit_transpose_8x8 using cell_unique by blast

text \<open>
  C4. For every 64-bit block and all \<open>row\<close>, \<open>col\<close> below 8, the bit at \<open>(row, col)\<close>
  of the input (bit number \<open>row * 8 + col\<close>) is the bit at \<open>(7 - col, row)\<close> of the output
  of \<open>transpose_8x8\<close>. This is not the pure transpose, which would send \<open>(row, col)\<close>
  to \<open>(col, row)\<close>, and it is not self-inverse: for the block with only bit \<open>(0, 0)\<close>
  set, applying it twice gives a block whose bit \<open>(0, 0)\<close> is clear.
\<close>

theorem transpose_8x8_rotates:
  "(\<forall>row col. row < 8 \<longrightarrow> col < 8 \<longrightarrow>
      bit (transpose_8x8 input) ((7 - col) * 8 + row) = bit input (row * 8 + col))
   \<and> (\<exists>x row col. row < 8 \<and> col < 8 \<and>
         bit (transpose_8x8 x) (col * 8 + row) \<noteq> bit x (row * 8 + col))
   \<and> (\<exists>x. transpose_8x8 (transpose_8x8 x) \<noteq> x)"
proof (intro conjI allI impI)
  fix row col :: nat
  assume "row < 8" "col < 8"
  then show "bit (transpose_8x8 input) ((7 - col) * 8 + row) = bit input (row * 8 + col)"
    by (rule transpose_8x8_cell)
next
  have "bit (transpose_8x8 1) ((7 - 7) * 8 + 0) = bit (1 :: 64 word) (0 * 8 + 7)"
    by (rule transpose_8x8_cell) simp_all
  then have "bit (transpose_8x8 1) (0 * 8 + 0) \<noteq> bit (1 :: 64 word) (0 * 8 + 0)"
    by (simp add: bit_1_iff)
  then show "\<exists>x row col. row < 8 \<and> col < 8 \<and>
      bit (transpose_8x8 x) (col * 8 + row) \<noteq> bit x (row * 8 + col)"
    by (intro exI [of _ 1] exI [of _ 0]) simp
next
  have "bit (transpose_8x8 (transpose_8x8 1)) ((7 - 7) * 8 + 0)
          = bit (transpose_8x8 1) (0 * 8 + 7)"
    by (rule transpose_8x8_cell) simp_all
  also have "bit (transpose_8x8 1) (0 * 8 + 7) = bit (transpose_8x8 1) ((7 - 7) * 8 + 7)"
    by simp
  also have "\<dots> = bit (1 :: 64 word) (7 * 8 + 7)"
    by (rule transpose_8x8_cell) simp_all
  finally have "\<not> bit (transpose_8x8 (transpose_8x8 1)) 0"
    by (simp add: bit_1_iff)
  moreover have "bit (1 :: 64 word) 0" by simp
  ultimately have "transpose_8x8 (transpose_8x8 1) \<noteq> 1" by metis
  then show "\<exists>x. transpose_8x8 (transpose_8x8 x) \<noteq> x" ..
qed

theorem transpose_8x8_rotates_witness:
  "(0::nat) < 8
   \<and> bit (transpose_8x8 1) ((7 - 0) * 8 + 0) = bit (1 :: 64 word) (0 * 8 + 0)
   \<and> bit (transpose_8x8 1) 56"
  using transpose_8x8_rotates [THEN conjunct1, rule_format, where row = 0 and col = 0 and input = 1]
  by simp

section \<open>Theorems about the scene composer\<close>

lemma text_width_loop_eq:
  "text_width_loop font text w = w + spec_text_width font text"
proof (induction "text" arbitrary: w)
  case Nil
  show ?case by (simp add: spec_text_width_def)
next
  case (Cons ch p)
  have pos: "\<And>d. (if width d > 0 then w + uint (width d) else w) = w + uint (width d)"
    by (simp add: word_greater_zero_iff)
  show ?case
  proof (cases "p = []")
    case True
    then show ?thesis
      by (simp add: spec_text_width_def char_desc_width_def pos split: option.split)
  next
    case False
    then show ?thesis
      by (simp add: Cons.IH spec_text_width_def char_desc_width_def pos split: option.split)
  qed
qed

lemmas default_font_defs =
  default_font_get_char_def DEFAULT_FONT_CHAR_WIDTH_def DEFAULT_FONT_CHAR_OFFSET_def
  DEFAULT_FONT_FONT_DATA_def font_default_def nth_append

text \<open>
  What \<open>get_text_width\<close> computes, for every string and every font (the default font when
  none is given): the sum of the widths that \<open>get_char\<close> returns for every character
  except the last, plus the width that \<open>get_char_last\<close> returns for the last character.
  For a character that the small dot-matrix font covers, its \<open>get_char_last\<close> returns
  the base glyph width and its \<open>get_char\<close> one column more; a character outside its
  coverage goes to the default font's \<open>get_char_last\<close>, which is the default font's
  \<open>get_char\<close> and returns the base width plus the spacing column.
\<close>

lemma text_width_is_sum_of_lookups:
  "get_text_width text font
     = spec_text_width (case font of None \<Rightarrow> font_default | Some f \<Rightarrow> f) text
   \<and> (DOTMATRIX_SMALL_CHAR_WIDTH ! unat ch \<noteq> 0 \<longrightarrow>
        (\<exists>d dl. get_char font_dotmatrix_small ch = Some d
           \<and> get_char_last font_dotmatrix_small ch = Some dl
           \<and> width dl = DOTMATRIX_SMALL_CHAR_WIDTH ! unat ch
           \<and> width d = DOTMATRIX_SMALL_CHAR_WIDTH ! unat ch + 1))
   \<and> (DOTMATRIX_SMALL_CHAR_WIDTH ! unat ch = 0 \<longrightarrow>
        get_char_last font_dotmatrix_small ch = get_char_last font_default ch)
   \<and> get_char_last font_default = get_char font_default
   \<and> (DEFAULT_FONT_CHAR_WIDTH ! unat ch \<noteq> 0 \<longrightarrow>
        (\<exists>dl. get_char_last font_default ch = Some dl
           \<and> width dl = DEFAULT_FONT_CHAR_WIDTH ! unat ch + 1))"
  by (simp add: get_text_width_def text_width_loop_eq font_dotmatrix_small_def
      dotmatrix_small_font_get_char_def dotmatrix_small_font_get_char_last_def
      font_default_def default_font_get_char_def Let_def)

lemmas dotmatrix_small_defs =
  font_dotmatrix_small_def dotmatrix_small_font_get_char_def
  dotmatrix_small_font_get_char_last_def DOTMATRIX_SMALL_CHAR_WIDTH_def
  DOTMATRIX_SMALL_CHAR_OFFSET_def DOTMATRIX_SMALL_FONT_DATA_def

text \<open>
  C3. The claim holds for the small dot-matrix font and fails for the default font, whose
  last-character lookup is its \<open>get_char\<close> and appends the spacing column, although the
  font interface documents \<open>get_char_last\<close> as the descriptor without trailing spacing.
  In the small dot-matrix font the letter \<open>A\<close> has 3 columns; \<open>get_char\<close> returns 4
  columns, the fourth being the spacing column, and \<open>get_char_last\<close> returns the 3 glyph
  columns. In the default font the digit \<open>1\<close> has 3 columns (130, 255, 128);
  \<open>get_char_last\<close> returns 4 columns, the fourth being the empty spacing column, so the
  text \<open>1\<close> measures 4 columns and not 3, and the bracket \<open>[\<close>, 4 columns wide, measures
  5, which centres it at column 13 instead of 14.
\<close>

theorem default_font_last_char_keeps_spacing:
  "DOTMATRIX_SMALL_CHAR_WIDTH ! unat (of_char CHR ''A'' :: 8 word) = 3
   \<and> get_char font_dotmatrix_small (of_char CHR ''A'')
       = Some \<lparr>width = 4, data = Some [0xFD, 0x15, 0xFD, 0x01]\<rparr>
   \<and> get_char_last font_dotmatrix_small (of_char CHR ''A'')
       = Some \<lparr>width = 3, data = Some [0xFD, 0x15, 0xFD]\<rparr>
   \<and> DEFAULT_FONT_CHAR_WIDTH ! unat (of_char CHR ''1'' :: 8 word) = 3
   \<and> get_char_last font_default (of_char CHR ''1'')
       = Some \<lparr>width = 4, data = Some [130, 255, 128, 0]\<rparr>
   \<and> get_text_width ''1'' (Some font_default) = 4
   \<and> DEFAULT_FONT_CHAR_WIDTH ! unat (of_char CHR ''['' :: 8 word) = 4
   \<and> get_text_width ''['' None = 5
   \<and> c_div2 (32 - get_text_width ''['' None) = 13
   \<and> c_div2 (32 - 4) = 14"
  by (simp add: get_text_width_def default_font_defs dotmatrix_small_defs c_div2_def)

section \<open>Theorems about the output device adapter\<close>

lemma cascade_indices: "[0..<4] = [0, 1, 2, 3::nat]"
  by (simp add: upt_rec)

text \<open>
  C9. The streaming loop makes four draw calls. For every \<open>i\<close> below 4, call \<open>i\<close> is
  addressed to position \<open>i * 8\<close>, which is module \<open>i\<close> of the cascade, and its image is
  the rotated block \<open>3 - i\<close> of the display buffer: for all \<open>row\<close> and \<open>col\<close> below 8,
  the bit at \<open>(7 - col, row)\<close> of the image written to module \<open>i\<close> is the bit at
  \<open>(row, col)\<close> of block \<open>3 - i\<close>. So block 0, the first eight columns, goes rotated to
  the last module. Whenever \<open>max7219_driver_render\<close> composes a buffer (the driver is
  initialised and the scene has elements or a fallback text), its draw calls are this stream
  of the composed buffer.
\<close>

theorem stream_reverses_devices:
  "length (stream_display_buffer buf) = 4
   \<and> (\<forall>i<4. fst (stream_display_buffer buf ! i) = word_of_nat (i * 8)
          \<and> snd (stream_display_buffer buf ! i) = transpose_8x8 (buf ! (3 - i))
          \<and> (\<forall>row<8. \<forall>col<8.
                bit (snd (stream_display_buffer buf ! i)) ((7 - col) * 8 + row)
                  = bit (buf ! (3 - i)) (row * 8 + col)))
   \<and> (s_initialized
        \<and> (element_count sc > 0 \<and> elements sc \<noteq> None \<or> fallback_text sc \<noteq> None) \<longrightarrow>
        snd (max7219_driver_render s_initialized (Some sc) buf0)
          = stream_display_buffer (fst (max7219_driver_render s_initialized (Some sc) buf0)))"
  by (auto simp: stream_display_buffer_def MAX7219_CASCADE_def max7219_driver_render_def
      Let_def transpose_8x8_cell split: option.splits)

lemma render_text_centered_1:
  "render_text_centered ''1'' None = [0, 0xFF82000000000000, 0x80, 0]"
  by (simp add: render_text_centered_def get_text_width_def render_text_at_def
      default_font_defs c_div2_def clear_display_buffer_def MAX7219_CASCADE_def
      set_column_def Let_def replicate_numeral_unfold)

text \<open>
  The rotated blocks of that buffer: column 0 of block 2, with only its bottom pixel lit
  (byte 128), becomes bit 0 of the first wire byte; columns 6 and 7 of block 1 (bytes 130
  and 255) become bits 6 and 7 of the wire bytes.
\<close>

lemma wire_values:
  "transpose_8x8 0 = 0"
  "transpose_8x8 0x80 = 0x1"
  "transpose_8x8 0xFF82000000000000 = 0x80C08080808080C0"
  by code_simp+

theorem stream_reverses_devices_witness:
  "(1::nat) < 4 \<and> (3::nat) < 4 \<and> (0::nat) < 8 \<and> (7::nat) < 8
   \<and> stream_display_buffer [0, 0xFF82000000000000, 0x80, 0] ! 3 = (24, 0)
   \<and> stream_display_buffer [0, 0xFF82000000000000, 0x80, 0] ! 1 = (8, 0x1)
   \<and> bit (snd (stream_display_buffer [0, 0xFF82000000000000, 0x80, 0] ! 1)) ((7 - 7) * 8 + 0)
   \<and> fallback_text \<lparr>element_count = 0, elements = None, fallback_text = Some ''1''\<rparr> \<noteq> None
   \<and> max7219_driver_render True
         (Some \<lparr>element_count = 0, elements = None, fallback_text = Some ''1''\<rparr>) [0, 0, 0, 0]
       = ([0, 0xFF82000000000000, 0x80, 0],
          [(0, 0), (8, 0x1), (16, 0x80C08080808080C0), (24, 0)])"
  using stream_reverses_devices
          [of "[0, 0xFF82000000000000, 0x80, 0]" True
              "\<lparr>element_count = 0, elements = None, fallback_text = Some ''1''\<rparr>" "[0, 0, 0, 0]"]
  by (simp add: max7219_driver_render_def render_text_centered_1 stream_display_buffer_def
      MAX7219_CASCADE_def cascade_indices wire_values)

section \<open>Theorems about the panel lifecycle manager\<close>

lemma panel_index_from_counter [simp]:
  "panel_index_from i pid (s\<lparr>inactivity_counter := x\<rparr>) = panel_index_from i pid s"
proof (induction i pid s rule: panel_index_from.induct)
  case (1 i pid s)
  show ?case
    by (subst (1 2) panel_index_from.simps) (simp add: 1)
qed

lemma panel_index_from_Some:
  "panel_index_from i pid s = Some k \<Longrightarrow>
   i \<le> k \<and> k < panel_count s \<and> panel_id (panels s ! k) = pid
   \<and> (\<forall>j. i \<le> j \<and> j < k \<longrightarrow> panel_id (panels s ! j) \<noteq> pid)"
proof (induction i pid s rule: panel_index_from.induct)
  case (1 i pid s)
  show ?case
  proof (cases "i < panel_count s \<and> panel_id (panels s ! i) \<noteq> pid")
    case True
    then have "panel_index_from (Suc i) pid s = Some k"
      using "1.prems" by (subst (asm) panel_index_from.simps) simp
    then have ih: "Suc i \<le> k \<and> k < panel_count s \<and> panel_id (panels s ! k) = pid
       \<and> (\<forall>j. Suc i \<le> j \<and> j < k \<longrightarrow> panel_id (panels s ! j) \<noteq> pid)"
      using "1.IH" True by simp
    show ?thesis
    proof (intro conjI allI impI)
      fix j assume j: "i \<le> j \<and> j < k"
      show "panel_id (panels s ! j) \<noteq> pid"
      proof (cases "j = i")
        case True with \<open>i < panel_count s \<and> panel_id (panels s ! i) \<noteq> pid\<close> show ?thesis by simp
      next
        case False with j ih show ?thesis by (simp add: Suc_le_eq)
      qed
    qed (use ih in simp_all)
  next
    case False
    then show ?thesis
      using "1.prems" by (subst (asm) panel_index_from.simps) (auto split: if_splits)
  qed
qed

lemma panel_index_from_None:
  "panel_index_from i pid s = None \<longleftrightarrow>
   (\<forall>j. i \<le> j \<and> j < panel_count s \<longrightarrow> panel_id (panels s ! j) \<noteq> pid)"
proof (induction i pid s rule: panel_index_from.induct)
  case (1 i pid s)
  show ?case
  proof (cases "i < panel_count s")
    case True
    show ?thesis
    proof (cases "panel_id (panels s ! i) = pid")
      case True
      with \<open>i < panel_count s\<close> show ?thesis
        by (subst panel_index_from.simps) auto
    next
      case False
      have "panel_index_from i pid s = panel_index_from (Suc i) pid s"
        using False \<open>i < panel_count s\<close> by (subst panel_index_from.simps) simp
      also have "\<dots> = None \<longleftrightarrow>
          (\<forall>j. Suc i \<le> j \<and> j < panel_count s \<longrightarrow> panel_id (panels s ! j) \<noteq> pid)"
        using "1.IH" False \<open>i < panel_count s\<close> by simp
      also have "\<dots> \<longleftrightarrow> (\<forall>j. i \<le> j \<and> j < panel_count s \<longrightarrow> panel_id (panels s ! j) \<noteq> pid)"
        using False by (metis Suc_leI le_neq_implies_less Suc_leD)
      finally show ?thesis .
    qed
  next
    case False
    then show ?thesis by (subst panel_index_from.simps) simp
  qed
qed


lemma ticks_add:
  "ticks (a + b) s = (fst (ticks b (fst (ticks a s))), snd (ticks a s) @ snd (ticks b (fst (ticks a s))))"
  by (induction a arbitrary: s) (simp_all add: split_beta Let_def)

lemma tick_below:
  assumes "pm_initialized s" "unat (inactivity_counter s) + 1 < inactivity_timeout_s (pm_config s)"
    and "inactivity_timeout_s (pm_config s) \<le> 65536"
  shows "inactivity_timer_callback s = (s\<lparr>inactivity_counter := inactivity_counter s + 1\<rparr>, [])"
proof -
  have "unat (inactivity_counter s + 1) = unat (inactivity_counter s) + 1"
    using assms(2,3) by (simp add: unat_word_ariths)
  then show ?thesis
    using assms by (simp add: inactivity_timer_callback_def Let_def)
qed

lemma ticks_below:
  "pm_initialized s \<Longrightarrow> unat (inactivity_counter s) + n < inactivity_timeout_s (pm_config s) \<Longrightarrow>
   inactivity_timeout_s (pm_config s) \<le> 65536 \<Longrightarrow>
   ticks n s = (s\<lparr>inactivity_counter := inactivity_counter s + of_nat n\<rparr>, [])"
proof (induction n arbitrary: s)
  case 0
  then show ?case by simp
next
  case (Suc n)
  have cb: "inactivity_timer_callback s = (s\<lparr>inactivity_counter := inactivity_counter s + 1\<rparr>, [])"
    using Suc.prems by (intro tick_below) simp_all
  have "unat (inactivity_counter s + 1) = unat (inactivity_counter s) + 1"
    using Suc.prems by (simp add: unat_word_ariths)
  then have "ticks n (s\<lparr>inactivity_counter := inactivity_counter s + 1\<rparr>)
     = (s\<lparr>inactivity_counter := inactivity_counter s + 1 + of_nat n\<rparr>, [])"
    using Suc.prems Suc.IH [of "s\<lparr>inactivity_counter := inactivity_counter s + 1\<rparr>"] by simp
  then show ?case by (simp add: cb add.assoc add.commute)
qed

lemma tick_timeout:
  assumes "pm_initialized s"
    and "unat (inactivity_counter s) + 1 = inactivity_timeout_s (pm_config s)"
    and "inactivity_timeout_s (pm_config s) < 65536"
    and "panel_id (panels s ! active_panel_idx s) \<noteq> default_panel (pm_config s)"
    and "panel_index_from 0 (default_panel (pm_config s)) s = Some d"
  shows "inactivity_timer_callback s =
           (s\<lparr>inactivity_counter := 0, active_panel_idx := d\<rparr>,
            [PANEL_DEACTIVATED (panel_id (panels s ! active_panel_idx s)),
             PANEL_ACTIVATED (default_panel (pm_config s))])"
proof -
  have u: "unat (inactivity_counter s + 1) = unat (inactivity_counter s) + 1"
    using assms(2,3) by (simp add: unat_word_ariths)
  have "d < panel_count s" using panel_index_from_Some [OF assms(5)] by simp
  then have c: "panel_count s \<noteq> 0" by simp
  show ?thesis
    using assms u c
    by (simp add: inactivity_timer_callback_def Let_def activate_panel_def deactivate_panel_def)
qed

lemma tick_on_default:
  assumes "panel_id (panels s ! active_panel_idx s) = default_panel (pm_config s)"
  shows "snd (inactivity_timer_callback s) = []
    \<and> panels (fst (inactivity_timer_callback s)) = panels s
    \<and> active_panel_idx (fst (inactivity_timer_callback s)) = active_panel_idx s
    \<and> panel_count (fst (inactivity_timer_callback s)) = panel_count s
    \<and> pm_config (fst (inactivity_timer_callback s)) = pm_config s"
  using assms by (simp add: inactivity_timer_callback_def Let_def)

lemma ticks_on_default:
  "panel_id (panels s ! active_panel_idx s) = default_panel (pm_config s) \<Longrightarrow>
   snd (ticks m s) = []
    \<and> panels (fst (ticks m s)) = panels s
    \<and> active_panel_idx (fst (ticks m s)) = active_panel_idx s
    \<and> panel_count (fst (ticks m s)) = panel_count s
    \<and> pm_config (fst (ticks m s)) = pm_config s"
proof (induction m arbitrary: s)
  case 0
  then show ?case by simp
next
  case (Suc m)
  note st = tick_on_default [OF Suc.prems]
  have "panel_id (panels (fst (inactivity_timer_callback s))
          ! active_panel_idx (fst (inactivity_timer_callback s)))
        = default_panel (pm_config (fst (inactivity_timer_callback s)))"
    using st Suc.prems by simp
  from Suc.IH [OF this] st show ?case
    by (simp add: split_beta Let_def)
qed

lemma timeout_resets_counter:
  "pm_initialized s \<Longrightarrow>
   unat (inactivity_counter s + 1) \<ge> inactivity_timeout_s (pm_config s) \<Longrightarrow>
   inactivity_counter (fst (inactivity_timer_callback s)) = 0"
  by (simp add: inactivity_timer_callback_def Let_def activate_panel_def deactivate_panel_def
      split_beta split: option.split)


text \<open>
  C7. The manager is initialised with inactivity timeout \<open>K\<close> (at least 1 and within the
  range of the 16-bit counter), the counter is 0 as an activation leaves it, the active
  panel is not the default panel, and the default panel is registered, \<open>d\<close> being its
  index. With no taps, the first \<open>K - 1\<close> ticks post nothing and only count; the
  \<open>K\<close>-th tick posts \<open>PANEL_DEACTIVATED\<close> of the current panel and then
  \<open>PANEL_ACTIVATED\<close> of the default panel, makes \<open>d\<close> the active index and resets the
  counter; any number of further ticks posts nothing more and leaves the default panel
  active. In any initialised state, a tick on which the counter reaches the timeout leaves
  the counter at 0, whether a transition occurred or not.
\<close>

theorem inactivity_timeout_returns_to_default:
  assumes "pm_initialized s"
    and "inactivity_timeout_s (pm_config s) = K" and "1 \<le> K" and "K < 65536"
    and "inactivity_counter s = 0"
    and "panel_id (panels s ! active_panel_idx s) \<noteq> default_panel (pm_config s)"
    and "panel_index_from 0 (default_panel (pm_config s)) s = Some d"
  shows "ticks (K - 1) s = (s\<lparr>inactivity_counter := of_nat (K - 1)\<rparr>, [])
    \<and> ticks K s = (s\<lparr>inactivity_counter := 0, active_panel_idx := d\<rparr>,
                   [PANEL_DEACTIVATED (panel_id (panels s ! active_panel_idx s)),
                    PANEL_ACTIVATED (default_panel (pm_config s))])
    \<and> panel_manager_get_active (fst (ticks K s)) = default_panel (pm_config s)
    \<and> (\<forall>m. snd (ticks (K + m) s) = snd (ticks K s)
            \<and> active_panel_idx (fst (ticks (K + m) s)) = d)
    \<and> (\<forall>s'. pm_initialized s'
            \<and> inactivity_timeout_s (pm_config s') \<le> unat (inactivity_counter s' + 1) \<longrightarrow>
            inactivity_counter (fst (inactivity_timer_callback s')) = 0)"
proof -
  let ?s1 = "s\<lparr>inactivity_counter := of_nat (K - 1)\<rparr>"
  let ?s2 = "s\<lparr>inactivity_counter := 0, active_panel_idx := d\<rparr>"
  let ?ev = "[PANEL_DEACTIVATED (panel_id (panels s ! active_panel_idx s)),
              PANEL_ACTIVATED (default_panel (pm_config s))]"
  have before: "ticks (K - 1) s = (?s1, [])"
    using ticks_below [of s "K - 1"] assms(1-5) by simp
  have u: "unat (of_nat (K - 1) :: 16 word) = K - 1"
    using assms(4) by (simp add: unsigned_of_nat take_bit_nat_eq_self)
  have last: "inactivity_timer_callback ?s1 = (?s2, ?ev)"
    using tick_timeout [of ?s1 d] assms u by simp
  have "ticks K s = ticks ((K - 1) + 1) s" using assms(3) by simp
  also have "\<dots> = (?s2, ?ev)"
    unfolding ticks_add using before last by simp
  finally have at: "ticks K s = (?s2, ?ev)" .
  have d: "d < panel_count s" "panel_id (panels s ! d) = default_panel (pm_config s)"
    using panel_index_from_Some [OF assms(7)] by simp_all
  then have act: "panel_manager_get_active ?s2 = default_panel (pm_config s)"
    by (simp add: panel_manager_get_active_def)
  have "panel_id (panels ?s2 ! active_panel_idx ?s2) = default_panel (pm_config ?s2)"
    using d by simp
  note after = ticks_on_default [OF this]
  have later: "snd (ticks (K + m) s) = snd (ticks K s)
      \<and> active_panel_idx (fst (ticks (K + m) s)) = d" for m
    unfolding ticks_add using after [of m] by (simp add: at)
  show ?thesis
    using before at act later timeout_resets_counter by simp
qed

lemma input_touch_handler_step:
  "panel_count s \<noteq> 0 \<Longrightarrow>
   input_touch_handler s =
     (s\<lparr>active_panel_idx := (active_panel_idx s + 1) mod panel_count s,
        inactivity_counter := 0\<rparr>,
      [PANEL_DEACTIVATED (panel_id (panels s ! active_panel_idx s)),
       PANEL_ACTIVATED (panel_id (panels s ! ((active_panel_idx s + 1) mod panel_count s)))])"
  by (simp add: input_touch_handler_def next_panel_def Let_def activate_panel_def
      deactivate_panel_def)

lemma taps_state:
  "panel_count s \<noteq> 0 \<Longrightarrow> active_panel_idx s < panel_count s \<Longrightarrow>
   active_panel_idx (fst (taps k s)) = (active_panel_idx s + k) mod panel_count s
   \<and> panels (fst (taps k s)) = panels s
   \<and> panel_count (fst (taps k s)) = panel_count s
   \<and> pm_config (fst (taps k s)) = pm_config s"
proof (induction k arbitrary: s)
  case 0
  then show ?case by simp
next
  case (Suc k)
  let ?s1 = "s\<lparr>active_panel_idx := (active_panel_idx s + 1) mod panel_count s,
               inactivity_counter := 0\<rparr>"
  have "panel_count ?s1 \<noteq> 0" "active_panel_idx ?s1 < panel_count ?s1"
    using Suc.prems by simp_all
  from Suc.IH [OF this] show ?case
    using Suc.prems by (simp add: input_touch_handler_step split_beta mod_simps)
qed

lemmas panel_defs =
  panel_manager_init_def panel_manager_register_panel_def panel_index_from.simps
  input_touch_handler_def next_panel_def activate_panel_def deactivate_panel_def
  inactivity_timer_callback_def panel_manager_get_active_def
  example_panel_config_def example_panels_def MAX_PANELS_def PANEL_CLOCK_def PANEL_DATE_def
  Let_def replicate_numeral_unfold

lemma example_state:
  "fst (taps 1 (register_all example_panels (panel_manager_init example_panel_config)))
     = \<lparr>pm_initialized = True, pm_config = example_panel_config,
        panels = example_panels @ replicate 5 \<lparr>panel_id = 0, name = []\<rparr>,
        panel_count = 3, active_panel_idx = 2, inactivity_counter = 0\<rparr>"
  by (simp add: panel_defs)

theorem inactivity_timeout_returns_to_default_witness:
  "(let s = fst (taps 1 (register_all example_panels (panel_manager_init example_panel_config)))
    in pm_initialized s \<and> inactivity_timeout_s (pm_config s) = 3 \<and> (1::nat) \<le> 3
       \<and> (3::nat) < 65536 \<and> inactivity_counter s = 0
       \<and> panel_id (panels s ! active_panel_idx s) \<noteq> default_panel (pm_config s)
       \<and> panel_index_from 0 (default_panel (pm_config s)) s = Some 1
       \<and> snd (ticks 2 s) = []
       \<and> snd (ticks 3 s) = [PANEL_DEACTIVATED 2, PANEL_ACTIVATED PANEL_CLOCK]
       \<and> panel_manager_get_active (fst (ticks 3 s)) = PANEL_CLOCK
       \<and> snd (ticks (3 + 4) s) = [PANEL_DEACTIVATED 2, PANEL_ACTIVATED PANEL_CLOCK])"
proof -
  let ?s = "fst (taps 1 (register_all example_panels (panel_manager_init example_panel_config)))"
  have h: "pm_initialized ?s" "inactivity_timeout_s (pm_config ?s) = 3" "(1::nat) \<le> 3"
    "(3::nat) < 65536" "inactivity_counter ?s = 0"
    "panel_id (panels ?s ! active_panel_idx ?s) \<noteq> default_panel (pm_config ?s)"
    "panel_index_from 0 (default_panel (pm_config ?s)) ?s = Some 1"
    by (simp_all add: example_state) (simp_all add: panel_defs)
  have cur: "panel_id (panels ?s ! active_panel_idx ?s) = 2"
    "default_panel (pm_config ?s) = PANEL_CLOCK"
    by (simp_all add: example_state) (simp_all add: panel_defs)
  note run = inactivity_timeout_returns_to_default [OF h]
  note r1 = run [THEN conjunct1]
    and r2 = run [THEN conjunct2, THEN conjunct1]
    and r3 = run [THEN conjunct2, THEN conjunct2, THEN conjunct1]
    and r4 = run [THEN conjunct2, THEN conjunct2, THEN conjunct2, THEN conjunct1, rule_format]
  have c1: "snd (ticks 2 ?s) = []" using r1 by simp
  have c2: "snd (ticks 3 ?s) = [PANEL_DEACTIVATED 2, PANEL_ACTIVATED PANEL_CLOCK]"
    using r2 cur by simp
  have c3: "panel_manager_get_active (fst (ticks 3 ?s)) = PANEL_CLOCK"
    using r3 cur by simp
  have c4: "snd (ticks (3 + 4) ?s) = [PANEL_DEACTIVATED 2, PANEL_ACTIVATED PANEL_CLOCK]"
    using r4 [of 4] c2 by simp
  show ?thesis
    unfolding Let_def using h c1 c2 c3 c4 by (intro conjI)
qed


lemma panel_index_from_first:
  assumes "k < panel_count s" "panel_id (panels s ! k) = pid"
    and "\<forall>j<k. panel_id (panels s ! j) \<noteq> pid"
  shows "panel_index_from 0 pid s = Some k"
proof -
  have "panel_index_from 0 pid s \<noteq> None"
    using assms(1,2) by (auto simp: panel_index_from_None)
  then obtain k' where k': "panel_index_from 0 pid s = Some k'" by auto
  note f = panel_index_from_Some [OF k']
  have "\<not> k < k'" using f assms(2) by auto
  moreover have "\<not> k' < k" using f assms(3) by auto
  ultimately show ?thesis using k' by simp
qed

lemma register_new_panel:
  assumes "pm_initialized s" "panel_count s < MAX_PANELS" "length (panels s) = MAX_PANELS"
    and "\<forall>j<panel_count s. panel_id (panels s ! j) \<noteq> panel_id p"
  shows "panel_manager_register_panel p s =
           (ESP_OK,
            (if panel_id p = default_panel (pm_config s)
             then s\<lparr>panels := (panels s)[panel_count s := p],
                     panel_count := panel_count s + 1,
                     active_panel_idx := panel_count s,
                     inactivity_counter := 0\<rparr>
             else s\<lparr>panels := (panels s)[panel_count s := p],
                     panel_count := panel_count s + 1\<rparr>),
            (if panel_id p = default_panel (pm_config s)
             then [PANEL_ACTIVATED (panel_id p)] else []))"
proof -
  let ?s1 = "s\<lparr>panels := (panels s)[panel_count s := p], panel_count := panel_count s + 1\<rparr>"
  have none: "panel_index_from 0 (panel_id p) s = None"
    using assms(4) by (simp add: panel_index_from_None)
  have "panel_index_from 0 (panel_id p) ?s1 = Some (panel_count s)"
    using assms(2,3,4) by (intro panel_index_from_first) simp_all
  then have some: "panel_id p = default_panel (pm_config s) \<Longrightarrow>
      panel_index_from 0 (default_panel (pm_config s)) ?s1 = Some (panel_count s)"
    by simp
  show ?thesis
  proof (cases "panel_id p = default_panel (pm_config s)")
    case True
    then show ?thesis
      using assms(1,2) none some
      by (simp add: panel_manager_register_panel_def Let_def activate_panel_def)
  next
    case False
    then show ?thesis
      using assms(1,2) none
      by (simp add: panel_manager_register_panel_def Let_def)
  qed
qed

text \<open>
  The invariant of registration: the manager is initialised, the array has its
  \<open>MAX_PANELS\<close> entries, and the active index is below the count (or both are 0).
\<close>

lemma register_all_distinct:
  assumes "pm_initialized s" "length (panels s) = MAX_PANELS"
    and "panel_count s + length ps \<le> MAX_PANELS"
    and "distinct (map panel_id (take (panel_count s) (panels s) @ ps))"
    and "active_panel_idx s < panel_count s \<or> (panel_count s = 0 \<and> active_panel_idx s = 0)"
  shows "panel_count (register_all ps s) = panel_count s + length ps
    \<and> take (panel_count s + length ps) (panels (register_all ps s))
        = take (panel_count s) (panels s) @ ps
    \<and> (active_panel_idx (register_all ps s) < panel_count s + length ps
        \<or> (panel_count s + length ps = 0 \<and> active_panel_idx (register_all ps s) = 0))
    \<and> pm_config (register_all ps s) = pm_config s"
  using assms
proof (induction ps arbitrary: s)
  case Nil
  then show ?case by simp
next
  case (Cons p ps)
  let ?n = "panel_count s"
  have n: "?n < MAX_PANELS" using Cons.prems(3) by simp
  have fresh: "\<forall>j<?n. panel_id (panels s ! j) \<noteq> panel_id p"
  proof (intro allI impI)
    fix j assume j: "j < ?n"
    then have "panels s ! j \<in> set (take ?n (panels s))"
      using Cons.prems(2) n by (metis in_set_conv_nth length_take min.absorb2 nth_take
          less_imp_le_nat)
    moreover have "panel_id p \<notin> panel_id ` set (take ?n (panels s))"
      using Cons.prems(4) by auto
    ultimately show "panel_id (panels s ! j) \<noteq> panel_id p"
      by (metis imageI)
  qed
  let ?s1 = "fst (snd (panel_manager_register_panel p s))"
  note reg = register_new_panel [OF Cons.prems(1) n Cons.prems(2) fresh]
  have s1: "pm_initialized ?s1" "length (panels ?s1) = MAX_PANELS"
    "panel_count ?s1 = ?n + 1" "pm_config ?s1 = pm_config s"
    "panels ?s1 = (panels s)[?n := p]"
    "active_panel_idx ?s1 < ?n + 1"
    using Cons.prems(1,2,5) by (auto simp: reg)
  have tk: "take (Suc ?n) ((panels s)[?n := p]) = take ?n (panels s) @ [p]"
    using n Cons.prems(2) by (simp add: take_Suc_conv_app_nth)
  have ih: "panel_count (register_all ps ?s1) = panel_count ?s1 + length ps
    \<and> take (panel_count ?s1 + length ps) (panels (register_all ps ?s1))
        = take (panel_count ?s1) (panels ?s1) @ ps
    \<and> (active_panel_idx (register_all ps ?s1) < panel_count ?s1 + length ps
        \<or> (panel_count ?s1 + length ps = 0 \<and> active_panel_idx (register_all ps ?s1) = 0))
    \<and> pm_config (register_all ps ?s1) = pm_config ?s1"
  proof (rule Cons.IH)
    show "pm_initialized ?s1" by (rule s1)
    show "length (panels ?s1) = MAX_PANELS" by (rule s1)
    show "panel_count ?s1 + length ps \<le> MAX_PANELS" using Cons.prems(3) s1(3) by simp
    show "distinct (map panel_id (take (panel_count ?s1) (panels ?s1) @ ps))"
      using Cons.prems(4) by (simp add: s1(3,5) tk)
    show "active_panel_idx ?s1 < panel_count ?s1
        \<or> (panel_count ?s1 = 0 \<and> active_panel_idx ?s1 = 0)"
      using s1(3,6) by simp
  qed
  show ?case
    using ih by (simp add: s1(3,4,5) tk)
qed


text \<open>
  C8. \<open>N\<close> panels with distinct ids, \<open>N\<close> between 1 and \<open>MAX_PANELS\<close>, are
  registered with a freshly initialised manager. Then the registry holds them in
  registration order and the active index \<open>a\<close> is below \<open>N\<close>. After \<open>k\<close> taps the
  active index is \<open>(a + k) mod N\<close>, so every tap advances it by one modulo \<open>N\<close>; the tap
  posts \<open>PANEL_DEACTIVATED\<close> of the panel it leaves and \<open>PANEL_ACTIVATED\<close> of the next
  one. The panels active after taps 1 to \<open>N\<close> are the registered panels in registration
  order, starting after the initially active one and wrapping around; after \<open>N\<close> taps the
  active index and the active panel are the original ones.
\<close>

theorem taps_cycle_through_panels:
  assumes "distinct (map panel_id ps)" and "1 \<le> length ps" and "length ps \<le> MAX_PANELS"
  shows "(let s = register_all ps (panel_manager_init cfg);
              N = length ps;
              a = active_panel_idx s
          in panel_count s = N \<and> a < N \<and> take N (panels s) = ps
             \<and> (\<forall>k. active_panel_idx (fst (taps k s)) = (a + k) mod N)
             \<and> (\<forall>k. panel_manager_get_active (fst (taps k s)) = panel_id (ps ! ((a + k) mod N)))
             \<and> (\<forall>k. snd (input_touch_handler (fst (taps k s)))
                     = [PANEL_DEACTIVATED (panel_id (ps ! ((a + k) mod N))),
                        PANEL_ACTIVATED (panel_id (ps ! ((a + k + 1) mod N)))])
             \<and> map (\<lambda>k. panel_manager_get_active (fst (taps k s))) [1..<N + 1]
                 = map panel_id (rotate (a + 1) ps)
             \<and> active_panel_idx (fst (taps N s)) = a
             \<and> panel_manager_get_active (fst (taps N s)) = panel_manager_get_active s)"
proof -
  let ?s = "register_all ps (panel_manager_init cfg)"
  let ?N = "length ps"
  let ?a = "active_panel_idx ?s"
  have reg: "panel_count ?s = ?N" "take ?N (panels ?s) = ps" "?a < ?N"
    using register_all_distinct [of "panel_manager_init cfg" ps] assms
    by (auto simp: panel_manager_init_def)
  have N: "panel_count ?s \<noteq> 0" using reg(1) assms(2) by auto
  have a: "?a < panel_count ?s" using reg by simp
  note st = taps_state [OF N a]
  have nth: "panels ?s ! i = ps ! i" if "i < ?N" for i
    using that reg(2) by (metis nth_take)
  have idx: "active_panel_idx (fst (taps k ?s)) = (?a + k) mod ?N" for k
    using st [of k] reg(1) by simp
  have pos: "0 < ?N" using assms(2) by arith
  have lt: "(?a + k) mod ?N < ?N" for k
    using pos by simp
  have act: "panel_manager_get_active (fst (taps k ?s)) = panel_id (ps ! ((?a + k) mod ?N))" for k
    using st [of k] reg(1) N nth [OF lt [of k]]
    by (simp add: panel_manager_get_active_def)
  have ev: "snd (input_touch_handler (fst (taps k ?s)))
        = [PANEL_DEACTIVATED (panel_id (ps ! ((?a + k) mod ?N))),
           PANEL_ACTIVATED (panel_id (ps ! ((?a + k + 1) mod ?N)))]" for k
  proof -
    have c: "panel_count (fst (taps k ?s)) \<noteq> 0" using st [of k] N by simp
    have "((?a + k) mod ?N + 1) mod ?N = (?a + k + 1) mod ?N"
      by (simp add: mod_simps)
    then show ?thesis
      using st [of k] reg(1) nth [OF lt [of k]] nth [OF lt [of "k + 1"]]
      by (simp add: input_touch_handler_step [OF c] add.assoc)
  qed
  have visit: "map (\<lambda>k. panel_manager_get_active (fst (taps k ?s))) [1..<?N + 1]
        = map panel_id (rotate (?a + 1) ps)"
  proof (rule nth_equalityI)
    show "length (map (\<lambda>k. panel_manager_get_active (fst (taps k ?s))) [1..<?N + 1])
        = length (map panel_id (rotate (?a + 1) ps))"
      by (simp del: upt_Suc)
  next
    fix i assume "i < length (map (\<lambda>k. panel_manager_get_active (fst (taps k ?s))) [1..<?N + 1])"
    then have i: "i < ?N" by (simp del: upt_Suc)
    have "map (\<lambda>k. panel_manager_get_active (fst (taps k ?s))) [1..<?N + 1] ! i
        = panel_manager_get_active (fst (taps (1 + i) ?s))"
      using i by (simp add: nth_map_upt del: upt_Suc)
    also have "\<dots> = panel_id (ps ! ((?a + (1 + i)) mod ?N))" by (rule act)
    also have "\<dots> = map panel_id (rotate (?a + 1) ps) ! i"
    proof -
      have rt: "rotate (?a + 1) ps ! i = ps ! (((?a + 1) + i) mod ?N)"
        using i by (rule nth_rotate)
      have e: "(?a + (1 + i)) mod ?N = ((?a + 1) + i) mod ?N"
        by (simp add: add.assoc)
      have "map panel_id (rotate (?a + 1) ps) ! i = panel_id (rotate (?a + 1) ps ! i)"
        using i by (intro nth_map) (simp only: length_rotate)
      then show ?thesis by (simp only: rt e)
    qed
    finally show "map (\<lambda>k. panel_manager_get_active (fst (taps k ?s))) [1..<?N + 1] ! i
        = map panel_id (rotate (?a + 1) ps) ! i" .
  qed
  have cyc: "active_panel_idx (fst (taps ?N ?s)) = ?a"
    using idx [of ?N] reg(3) by simp
  have cyc': "panel_manager_get_active (fst (taps ?N ?s)) = panel_manager_get_active ?s"
    using act [of ?N] act [of 0] reg(3) by simp
  show ?thesis
    unfolding Let_def using reg idx act ev visit cyc cyc' by (intro conjI allI)
qed

lemma example_registered: "register_all example_panels (panel_manager_init example_panel_config)
   = \<lparr>pm_initialized = True, pm_config = example_panel_config,
        panels = example_panels @ replicate 5 \<lparr>panel_id = 0, name = []\<rparr>,
        panel_count = 3, active_panel_idx = 1, inactivity_counter = 0\<rparr>"
    by (simp add: panel_defs)

theorem taps_cycle_through_panels_witness:
  "distinct (map panel_id example_panels) \<and> 1 \<le> length example_panels
   \<and> length example_panels \<le> MAX_PANELS
   \<and> (let s = register_all example_panels (panel_manager_init example_panel_config)
       in active_panel_idx s = 1
          \<and> panel_manager_get_active s = PANEL_CLOCK
          \<and> snd (taps (length example_panels) s)
              = [PANEL_DEACTIVATED PANEL_CLOCK, PANEL_ACTIVATED 2,
                 PANEL_DEACTIVATED 2, PANEL_ACTIVATED PANEL_DATE,
                 PANEL_DEACTIVATED PANEL_DATE, PANEL_ACTIVATED PANEL_CLOCK]
          \<and> active_panel_idx (fst (taps (length example_panels) s)) = active_panel_idx s
          \<and> panel_manager_get_active (fst (taps (length example_panels) s))
              = panel_manager_get_active s)"
proof -
  let ?s = "register_all example_panels (panel_manager_init example_panel_config)"
  have h: "distinct (map panel_id example_panels)" "1 \<le> length example_panels"
    "length example_panels \<le> MAX_PANELS"
    by (simp_all add: example_panels_def MAX_PANELS_def PANEL_CLOCK_def PANEL_DATE_def)
  note run = taps_cycle_through_panels [OF h, of example_panel_config, unfolded Let_def]
  note c = run [THEN conjunct2, THEN conjunct2, THEN conjunct2, THEN conjunct2,
      THEN conjunct2, THEN conjunct2, THEN conjunct2]
  have e: "active_panel_idx ?s = 1" "panel_manager_get_active ?s = PANEL_CLOCK"
    "snd (taps (length example_panels) ?s)
       = [PANEL_DEACTIVATED PANEL_CLOCK, PANEL_ACTIVATED 2,
          PANEL_DEACTIVATED 2, PANEL_ACTIVATED PANEL_DATE,
          PANEL_DEACTIVATED PANEL_DATE, PANEL_ACTIVATED PANEL_CLOCK]"
    by (simp_all add: example_registered) (simp_all add: panel_defs)
  show ?thesis
    unfolding Let_def using h c e by (intro conjI) blast+
qed

end
